theory Spec2Isabelle
  imports Complex_Main
begin

section \<open>JavaScript values\<close>

text \<open>
  The pipeline works on untyped values (\<^verbatim>\<open>unknown\<close>): what \<^verbatim>\<open>JSON.parse\<close> returns for the
  reply of the LLM, and the objects the pipeline builds itself.  A value is \<^verbatim>\<open>undefined\<close>,
  \<^verbatim>\<open>null\<close>, a boolean, a (finite) number, a string, an array or a plain object.  An object
  is the list of its own properties in insertion order; a property whose value is
  \<^verbatim>\<open>undefined\<close> may be listed (the repair writes \<^verbatim>\<open>discrete_value: undefined\<close>).
  An array carries, besides its elements, the named properties that were assigned to it
  (\<^verbatim>\<open>parsedData._meta = {}\<close> on an array adds one); an array literal has none.
  The keys of an object are taken to be distinct, as they are after \<^verbatim>\<open>JSON.parse\<close>; a
  read finds the first entry of its key.
\<close>

datatype json =
    JUndef
  | JNull
  | JBool bool
  | JNum rat
  | JStr string
  | JArr "json list" "(string \<times> json) list"
  | JObj "(string \<times> json) list"

datatype exn = TypeError | TransportError string

text \<open>Template literals print an index in decimal.\<close>

fun show_nat :: "nat \<Rightarrow> string" where
  "show_nat n =
     (if n < 10 then [''0123456789'' ! n]
      else show_nat (n div 10) @ [''0123456789'' ! (n mod 10)])"

declare show_nat.simps [simp del]

fun lookup :: "(string \<times> json) list \<Rightarrow> string \<Rightarrow> json" where
  "lookup [] k = JUndef"
| "lookup ((k', v) # kvs) k = (if k = k' then v else lookup kvs k)"

text \<open>\<^verbatim>\<open>o[k] = v\<close> on the own properties: an existing key keeps its place.\<close>

fun obj_set :: "string \<Rightarrow> json \<Rightarrow> (string \<times> json) list \<Rightarrow> (string \<times> json) list" where
  "obj_set k v [] = [(k, v)]"
| "obj_set k v ((k', v') # kvs) =
     (if k = k' then (k, v) # kvs else (k', v') # obj_set k v kvs)"

text \<open>
  The own enumerable properties of a value, which is what the spread \<^verbatim>\<open>{...v}\<close> copies:
  the indices of an array or of a string, then the named properties.
\<close>

definition indexed :: "json list \<Rightarrow> (string \<times> json) list" where
  "indexed xs = zip (map show_nat [0..<length xs]) xs"

fun own_props :: "json \<Rightarrow> (string \<times> json) list" where
  "own_props (JObj kvs) = kvs"
| "own_props (JArr xs ps) = indexed xs @ ps"
| "own_props (JStr s) = indexed (map (\<lambda>c. JStr [c]) s)"
| "own_props _ = []"

text \<open>
  Property read \<^verbatim>\<open>v.k\<close>.  On \<^verbatim>\<open>null\<close> and \<^verbatim>\<open>undefined\<close> JavaScript throws a TypeError:
  there \<open>get\<close> answers \<open>JUndef\<close> and every read of the source whose receiver may be
  nullish is guarded by \<open>nullish\<close> in the model, with the throw as a branch.  No key the
  program reads is a property of a prototype, \<^verbatim>\<open>length\<close> apart.
\<close>

fun get :: "string \<Rightarrow> json \<Rightarrow> json" where
  "get k (JObj kvs) = lookup kvs k"
| "get k (JArr xs ps) =
     (if k = ''length'' then JNum (of_nat (length xs)) else lookup (indexed xs @ ps) k)"
| "get k (JStr s) =
     (if k = ''length'' then JNum (of_nat (length s))
      else lookup (indexed (map (\<lambda>c. JStr [c]) s)) k)"
| "get k _ = JUndef"

fun nullish :: "json \<Rightarrow> bool" where
  "nullish JUndef = True"
| "nullish JNull = True"
| "nullish _ = False"

text \<open>Truthiness, as \<^verbatim>\<open>!v\<close>, \<^verbatim>\<open>a || b\<close> and \<^verbatim>\<open>c ? x : y\<close> test it.\<close>

fun truthy :: "json \<Rightarrow> bool" where
  "truthy JUndef = False"
| "truthy JNull = False"
| "truthy (JBool b) = b"
| "truthy (JNum n) = (n \<noteq> 0)"
| "truthy (JStr s) = (s \<noteq> [])"
| "truthy (JArr xs ps) = True"
| "truthy (JObj kvs) = True"

definition js_or :: "json \<Rightarrow> json \<Rightarrow> json" where
  "js_or a b = (if truthy a then a else b)"

text \<open>\<^verbatim>\<open>typeof v === 'object'\<close> holds of \<^verbatim>\<open>null\<close> too.\<close>

fun typeof_object :: "json \<Rightarrow> bool" where
  "typeof_object JNull = True"
| "typeof_object (JArr xs ps) = True"
| "typeof_object (JObj kvs) = True"
| "typeof_object _ = False"

fun typeof_string :: "json \<Rightarrow> bool" where
  "typeof_string (JStr s) = True"
| "typeof_string _ = False"

fun typeof_number :: "json \<Rightarrow> bool" where
  "typeof_number (JNum n) = True"
| "typeof_number _ = False"

fun isArray :: "json \<Rightarrow> bool" where
  "isArray (JArr xs ps) = True"
| "isArray _ = False"

fun elems :: "json \<Rightarrow> json list" where
  "elems (JArr xs ps) = xs"
| "elems _ = []"

text \<open>
  \<^verbatim>\<open>k in v\<close> throws a TypeError unless \<open>v\<close> is an object or an array; on those it asks
  for the property.
\<close>

fun has_prop :: "string \<Rightarrow> json \<Rightarrow> bool" where
  "has_prop k (JObj kvs) = (k \<in> fst ` set kvs)"
| "has_prop k (JArr xs ps) = (k = ''length'' \<or> k \<in> fst ` set (indexed xs @ ps))"
| "has_prop k _ = False"

definition bindE :: "exn + 'a \<Rightarrow> ('a \<Rightarrow> exn + 'b) \<Rightarrow> exn + 'b" where
  "bindE m f = (case m of Inl e \<Rightarrow> Inl e | Inr x \<Rightarrow> f x)"

text \<open>\<^verbatim>\<open>xs.map(f)\<close> where \<open>f\<close> may throw: the first throw ends the map.\<close>

fun mapE :: "('a \<Rightarrow> exn + 'b) \<Rightarrow> 'a list \<Rightarrow> exn + 'b list" where
  "mapE f [] = Inr []"
| "mapE f (x # xs) = bindE (f x) (\<lambda>y. bindE (mapE f xs) (\<lambda>ys. Inr (y # ys)))"

text \<open>\<^verbatim>\<open>xs.map((x, index) => f(x, index))\<close>, the index counted from \<open>i\<close>.\<close>

fun map_index :: "nat \<Rightarrow> (json \<Rightarrow> nat \<Rightarrow> json) \<Rightarrow> json list \<Rightarrow> json list" where
  "map_index i f [] = []"
| "map_index i f (x # xs) = f x i # map_index (Suc i) f xs"

section \<open>The repair engine (data-tools/validation/interfaces.ts, repairAnalysisData)\<close>

definition defaultCost :: json where
  "defaultCost = JObj [(''cost'', JObj [(''totalTokens'', JNum 0), (''costUSD'', JNum 0)])]"

definition defaultData :: json where
  "defaultData =
     JObj [(''entity'', JObj [(''id'', JNull), (''name_brand'', JStr ''Unknown Company''),
                              (''details'', JArr [] []), (''products'', JArr [] [])]),
           (''_meta'', defaultCost)]"

text \<open>
  \<^verbatim>\<open>getDetailProperty(obj, snakeCaseKey, camelCaseKey, defaultValue)\<close>: the \<^verbatim>\<open>in\<close>
  operator is its first step, so a receiver that is no object makes it throw.
\<close>

definition getDetailProperty :: "json \<Rightarrow> string \<Rightarrow> string \<Rightarrow> json \<Rightarrow> exn + json" where
  "getDetailProperty obj snakeCaseKey camelCaseKey defaultValue =
     (if nullish obj \<or> \<not> typeof_object obj then Inl TypeError
      else if has_prop snakeCaseKey obj \<and> get snakeCaseKey obj \<noteq> JUndef
        then Inr (get snakeCaseKey obj)
      else if has_prop camelCaseKey obj \<and> get camelCaseKey obj \<noteq> JUndef
        then Inr (get camelCaseKey obj)
      else Inr defaultValue)"

text \<open>The two fields every detail mapping reads with a \<^verbatim>\<open>typeof\<close> test.\<close>

definition discrete_of :: "json \<Rightarrow> json" where
  "discrete_of d =
     (if typeof_number (get ''discrete_value'' d) then get ''discrete_value'' d
      else if typeof_number (get ''discreteValue'' d) then get ''discreteValue'' d
      else JUndef)"

definition text_of :: "json \<Rightarrow> json" where
  "text_of d =
     (if typeof_string (get ''text_value'' d) then get ''text_value'' d
      else if typeof_string (get ''textValue'' d) then get ''textValue'' d
      else JUndef)"

text \<open>
  The mapping of \<^verbatim>\<open>entity.details\<close> (lines 378 to 400): plain property reads joined by
  \<^verbatim>\<open>||\<close>.  A read on \<^verbatim>\<open>null\<close> or \<^verbatim>\<open>undefined\<close> throws.  \<open>today\<close> is the value of
  \<^verbatim>\<open>new Date().toISOString().split('T')[0]\<close>.
\<close>

definition entity_detail :: "string \<Rightarrow> json \<Rightarrow> exn + json" where
  "entity_detail today d =
     (if nullish d then Inl TypeError
      else Inr (JObj
        [(''type_research_detail'',
            js_or (js_or (get ''type_research_detail'' d) (get ''typeResearchDetail'' d))
                  (JStr ''market_share_estimate'')),
         (''data_confidence'',
            js_or (js_or (get ''data_confidence'' d) (get ''dataConfidence'' d)) (JStr ''medium'')),
         (''source_type'',
            js_or (js_or (get ''source_type'' d) (get ''sourceType'' d)) (JStr ''analyst_estimate'')),
         (''as_of_date'',
            js_or (js_or (get ''as_of_date'' d) (get ''asOfDate'' d)) (JStr today)),
         (''discrete_value'', discrete_of d),
         (''text_value'', text_of d)]))"

text \<open>
  The mapping of the details of a product and of a competitor (lines 420 to 457 and 475
  to 512): the four calls of \<^verbatim>\<open>getDetailProperty\<close> in their order, then the two
  \<^verbatim>\<open>typeof\<close> tests.
\<close>

definition nested_detail :: "string \<Rightarrow> json \<Rightarrow> exn + json" where
  "nested_detail today d =
     bindE (getDetailProperty d ''type_research_detail'' ''typeResearchDetail''
              (JStr ''market_share_estimate'')) (\<lambda>t.
     bindE (getDetailProperty d ''data_confidence'' ''dataConfidence'' (JStr ''medium'')) (\<lambda>c.
     bindE (getDetailProperty d ''source_type'' ''sourceType'' (JStr ''analyst_estimate'')) (\<lambda>s.
     bindE (getDetailProperty d ''as_of_date'' ''asOfDate'' (JStr today)) (\<lambda>a.
     Inr (JObj
       [(''type_research_detail'', t), (''data_confidence'', c), (''source_type'', s),
        (''as_of_date'', a), (''discrete_value'', discrete_of d),
        (''text_value'', text_of d)])))))"

definition name_of :: "json \<Rightarrow> string \<Rightarrow> json" where
  "name_of e dflt =
     (if typeof_string (get ''name_brand'' e) then get ''name_brand'' e
      else if typeof_string (get ''nameBrand'' e) then get ''nameBrand'' e
      else JStr dflt)"

definition placeholder :: "string \<Rightarrow> json" where
  "placeholder n = JObj [(''id'', JNull), (''name_brand'', JStr n), (''details'', JArr [] [])]"

definition details_of :: "string \<Rightarrow> json \<Rightarrow> exn + json" where
  "details_of today e =
     (if isArray (get ''details'' e)
      then bindE (mapE (nested_detail today) (elems (get ''details'' e))) (\<lambda>ds. Inr (JArr ds []))
      else Inr (JArr [] []))"

definition repair_competitor :: "string \<Rightarrow> json \<Rightarrow> exn + json" where
  "repair_competitor today cmp =
     (if \<not> truthy cmp \<or> \<not> typeof_object cmp then Inr (placeholder ''Unknown Competitor'')
      else bindE (details_of today cmp) (\<lambda>ds.
        Inr (JObj [(''id'', JNull), (''name_brand'', name_of cmp ''Unknown Competitor''),
                   (''details'', ds)])))"

definition repair_product :: "string \<Rightarrow> json \<Rightarrow> exn + json" where
  "repair_product today product =
     (if \<not> truthy product \<or> \<not> typeof_object product then Inr (placeholder ''Unknown Product'')
      else bindE (details_of today product) (\<lambda>ds.
        bindE (if isArray (get ''competitors'' product)
               then bindE (mapE (repair_competitor today) (elems (get ''competitors'' product)))
                      (\<lambda>cs. Inr (JArr cs []))
               else Inr (JArr [] [])) (\<lambda>cs.
        Inr (JObj [(''id'', JNull), (''name_brand'', name_of product ''Unknown Product''),
                   (''details'', ds), (''competitors'', cs)]))))"

text \<open>Case 1 (lines 350 to 527): the value has an \<^verbatim>\<open>entity\<close> object.\<close>

definition repair_modern :: "string \<Rightarrow> json \<Rightarrow> exn + json" where
  "repair_modern today rawData =
     (let entityData = get ''entity'' rawData in
      bindE (if isArray (get ''details'' entityData)
             then bindE (mapE (entity_detail today) (elems (get ''details'' entityData)))
                    (\<lambda>ds. Inr (JArr ds []))
             else Inr (JArr [] [])) (\<lambda>ds.
      bindE (if isArray (get ''products'' entityData)
             then bindE (mapE (repair_product today) (elems (get ''products'' entityData)))
                    (\<lambda>ps. Inr (JArr ps []))
             else Inr (JArr [] [])) (\<lambda>ps.
      Inr (JObj
        [(''entity'', JObj [(''id'', JNull),
                            (''name_brand'', name_of entityData ''Unknown Company''),
                            (''details'', ds), (''products'', ps)]),
         (''_meta'',
            if truthy (get ''_meta'' rawData) \<and> typeof_object (get ''_meta'' rawData)
            then get ''_meta'' rawData else defaultCost)]))))"

text \<open>Case 2 (lines 529 to 613): the legacy flat shape.\<close>

definition legacy_name :: "json \<Rightarrow> string list \<Rightarrow> string \<Rightarrow> json" where
  "legacy_name e keys dflt =
     (let n = foldr (\<lambda>k rest. js_or (get k e) rest) keys (JStr dflt)
      in if typeof_string n then n else JStr dflt)"

definition legacy_competitor :: "json \<Rightarrow> nat \<Rightarrow> json" where
  "legacy_competitor cmp compIndex =
     (if \<not> truthy cmp \<or> \<not> typeof_object cmp
      then placeholder (''Competitor '' @ show_nat (compIndex + 1))
      else JObj [(''id'', JNull),
                 (''name_brand'',
                    legacy_name cmp [''name'', ''competitor_name'', ''name_brand'', ''nameBrand'']
                      (''Competitor '' @ show_nat (compIndex + 1))),
                 (''details'', JArr [] [])])"

definition legacy_product :: "json \<Rightarrow> nat \<Rightarrow> json" where
  "legacy_product product index =
     (if \<not> truthy product \<or> \<not> typeof_object product
      then placeholder (''Product '' @ show_nat (index + 1))
      else JObj [(''id'', JNull),
                 (''name_brand'',
                    legacy_name product [''name'', ''product_name'', ''name_brand'', ''nameBrand'']
                      (''Product '' @ show_nat (index + 1))),
                 (''details'', JArr [] []),
                 (''competitors'',
                    if isArray (get ''competitors'' product)
                    then JArr (map_index 0 legacy_competitor (elems (get ''competitors'' product))) []
                    else JArr [] [])])"

definition legacy_company_name :: "json \<Rightarrow> json" where
  "legacy_company_name rawData =
     (let company = get ''company'' rawData;
          companyName =
            js_or (js_or (js_or (js_or
              (if typeof_object company \<and> truthy company
               then js_or (js_or (get ''name'' company) (get ''company_name'' company))
                          (get ''trade_name'' company)
               else JNull)
              (get ''company_name'' rawData))
              (get ''name'' rawData))
              (get ''trade_name'' rawData))
              (JStr ''Unknown Company'')
      in if typeof_string companyName then companyName else JStr ''Unknown Company'')"

definition repair_legacy :: "json \<Rightarrow> json" where
  "repair_legacy rawData =
     JObj [(''entity'',
              JObj [(''id'', JNull), (''name_brand'', legacy_company_name rawData),
                    (''details'', JArr [] []),
                    (''products'',
                       JArr (map_index 0 legacy_product (elems (get ''products'' rawData))) [])]),
           (''_meta'', defaultCost)]"

text \<open>The body of the \<^verbatim>\<open>try\<close> block of \<^verbatim>\<open>repairAnalysisData\<close>.\<close>

definition repair_body :: "string \<Rightarrow> json \<Rightarrow> exn + json" where
  "repair_body today rawData =
     (if truthy (get ''entity'' rawData) \<and> typeof_object (get ''entity'' rawData)
        then repair_modern today rawData
      else if (truthy (get ''company'' rawData) \<or> truthy (get ''company_name'' rawData)
               \<or> truthy (get ''name'' rawData)) \<and> isArray (get ''products'' rawData)
        then Inr (repair_legacy rawData)
      else Inr defaultData)"

text \<open>
  \<^verbatim>\<open>repairAnalysisData(data, debug)\<close>; \<open>debug\<close> only switches logging on.  The
  \<^verbatim>\<open>catch\<close> answers every exception of the body with the default structure.
\<close>

definition repairAnalysisData :: "string \<Rightarrow> json \<Rightarrow> json" where
  "repairAnalysisData today data =
     (if \<not> truthy data \<or> \<not> typeof_object data then defaultData
      else case repair_body today data of Inl e \<Rightarrow> defaultData | Inr r \<Rightarrow> r)"

section \<open>The structural validator (Zod schemas)\<close>

text \<open>
  The schemas are built from the combinators of the Zod library.  \<^verbatim>\<open>z.object\<close> accepts a
  plain object (no array, no \<^verbatim>\<open>null\<close>), reads every key of its shape and ignores the
  others; \<^verbatim>\<open>.optional()\<close> accepts \<^verbatim>\<open>undefined\<close>, \<^verbatim>\<open>.nullable()\<close> accepts \<^verbatim>\<open>null\<close>;
  \<^verbatim>\<open>z.enum\<close> accepts the listed strings only.  The three string formats
  (\<^verbatim>\<open>.uuid()\<close>, \<^verbatim>\<open>.datetime()\<close>, \<^verbatim>\<open>.url()\<close>) are decided inside the library: the
  schemas take them as the parameter \<open>L\<close>.
\<close>

record zod_formats =
  uuid :: "string \<Rightarrow> bool"
  datetime :: "string \<Rightarrow> bool"
  url :: "string \<Rightarrow> bool"

definition z_optional :: "(json \<Rightarrow> bool) \<Rightarrow> json \<Rightarrow> bool" where
  "z_optional p v = (v = JUndef \<or> p v)"

definition z_nullable :: "(json \<Rightarrow> bool) \<Rightarrow> json \<Rightarrow> bool" where
  "z_nullable p v = (v = JNull \<or> p v)"

fun z_string :: "json \<Rightarrow> bool" where
  "z_string (JStr s) = True"
| "z_string _ = False"

fun z_number :: "json \<Rightarrow> bool" where
  "z_number (JNum n) = True"
| "z_number _ = False"

fun z_boolean :: "json \<Rightarrow> bool" where
  "z_boolean (JBool b) = True"
| "z_boolean _ = False"

fun z_any :: "json \<Rightarrow> bool" where
  "z_any v = True"

text \<open>\<^verbatim>\<open>z.number().int()\<close> and \<^verbatim>\<open>z.number().int().positive()\<close>.\<close>

fun z_int :: "json \<Rightarrow> bool" where
  "z_int (JNum n) = (of_int \<lfloor>n\<rfloor> = n)"
| "z_int _ = False"

fun z_int_positive :: "json \<Rightarrow> bool" where
  "z_int_positive (JNum n) = (of_int \<lfloor>n\<rfloor> = n \<and> 0 < n)"
| "z_int_positive _ = False"

text \<open>A string that passes a test: \<^verbatim>\<open>z.string().length(3)\<close>, \<^verbatim>\<open>z.string().uuid()\<close>.\<close>

fun z_string_that :: "(string \<Rightarrow> bool) \<Rightarrow> json \<Rightarrow> bool" where
  "z_string_that P (JStr s) = P s"
| "z_string_that P _ = False"

fun z_enum :: "string list \<Rightarrow> json \<Rightarrow> bool" where
  "z_enum vs (JStr s) = (s \<in> set vs)"
| "z_enum vs _ = False"

fun z_array :: "(json \<Rightarrow> bool) \<Rightarrow> json \<Rightarrow> bool" where
  "z_array p (JArr xs ps) = list_all p xs"
| "z_array p _ = False"

fun z_object :: "json \<Rightarrow> bool" where
  "z_object (JObj kvs) = True"
| "z_object _ = False"

definition dataConfidence :: "string list" where
  "dataConfidence = [''verified'', ''high'', ''medium'', ''low'', ''speculative'']"

definition researchDetailTypes :: "string list" where
  "researchDetailTypes =
     [''market_share_min'', ''market_share_max'', ''market_share_exact'',
      ''market_share_estimate'',
      ''employee_count_exact'', ''employee_count_estimate'', ''employee_count_min'',
      ''employee_count_max'',
      ''churn_rate_estimate'', ''customer_count_estimate'', ''active_users_estimate'',
      ''arpu_estimate'', ''cac_estimate'', ''ltv_estimate'', ''runway_months_estimate'',
      ''market_size_usd'', ''market_growth_rate'']"

definition sourceTypes :: "string list" where
  "sourceTypes =
     [''industry_report'', ''company_filing'', ''news_article'', ''analyst_estimate'',
      ''company_website'', ''press_release'', ''unknown'']"

definition statusOperating :: "string list" where
  "statusOperating =
     [''Active'', ''Operating'', ''Closed'', ''Inactive'', ''Acquired'', ''Liquidated'',
      ''Bankruptcy / Reorganization'', ''Unknown'']"

text \<open>\<^verbatim>\<open>entityDetailSchema\<close> (detail.schema.ts).\<close>

definition entityDetailSchema :: "zod_formats \<Rightarrow> json \<Rightarrow> bool" where
  "entityDetailSchema L d =
     (z_object d
      \<and> z_optional z_int_positive (get ''id'' d)
      \<and> z_optional (z_string_that (uuid L)) (get ''entity_id'' d)
      \<and> z_enum researchDetailTypes (get ''type_research_detail'' d)
      \<and> z_enum dataConfidence (get ''data_confidence'' d)
      \<and> z_enum sourceTypes (get ''source_type'' d)
      \<and> z_optional (z_string_that (datetime L)) (get ''as_of_date'' d)
      \<and> z_optional z_number (get ''discrete_value'' d)
      \<and> z_optional z_string (get ''text_value'' d)
      \<and> z_optional (z_string_that (datetime L)) (get ''created_at'' d)
      \<and> z_optional (z_string_that (datetime L)) (get ''updated_at'' d)
      \<and> z_optional z_string (get ''source'' d)
      \<and> z_optional (z_string_that (url L)) (get ''source_url'' d)
      \<and> z_optional (z_string_that (datetime L)) (get ''source_date'' d)
      \<and> z_optional z_string (get ''notes'' d))"

text \<open>
  The fields of \<^verbatim>\<open>baseEntitySchema\<close> (entity.schema.ts);
  \<^verbatim>\<open>z.boolean().default(b).optional()\<close> accepts a boolean or \<^verbatim>\<open>undefined\<close>.
\<close>

definition baseEntitySchema :: "zod_formats \<Rightarrow> json \<Rightarrow> bool" where
  "baseEntitySchema L e =
     (z_object e
      \<and> z_nullable (z_string_that (uuid L)) (get ''id'' e)
      \<and> z_string (get ''name_brand'' e)
      \<and> z_optional z_string (get ''name_legal'' e)
      \<and> z_optional z_int (get ''date_year_established'' e)
      \<and> z_optional z_string (get ''file_logo_square'' e)
      \<and> z_optional z_string (get ''file_logo_favicon_square'' e)
      \<and> z_optional z_boolean (get ''status_featured'' e)
      \<and> z_optional z_boolean (get ''status_hide_page'' e)
      \<and> z_optional z_boolean (get ''status_sitemap_show'' e)
      \<and> z_optional z_boolean (get ''status_verified'' e)
      \<and> z_optional (z_string_that (\<lambda>s. length s = 3)) (get ''functional_currency'' e)
      \<and> z_optional z_string (get ''type_record'' e)
      \<and> z_optional z_string (get ''slug'' e)
      \<and> z_optional z_string (get ''source_id'' e)
      \<and> z_optional (z_string_that (datetime L)) (get ''updated_at'' e)
      \<and> z_optional (z_string_that (datetime L)) (get ''created_at'' e)
      \<and> z_optional (z_string_that (datetime L)) (get ''updated_at_unified'' e))"

definition companyEntitySchema :: "zod_formats \<Rightarrow> json \<Rightarrow> bool" where
  "companyEntitySchema L e =
     (baseEntitySchema L e
      \<and> z_optional (z_enum statusOperating) (get ''status_operating'' e)
      \<and> z_optional (z_array z_any) (get ''urls'' e)
      \<and> z_optional (z_array z_any) (get ''identifiers'' e)
      \<and> z_optional (z_array (entityDetailSchema L)) (get ''details'' e))"

definition productEntitySchema :: "zod_formats \<Rightarrow> json \<Rightarrow> bool" where
  "productEntitySchema L e =
     (baseEntitySchema L e
      \<and> z_optional (z_array (entityDetailSchema L)) (get ''details'' e)
      \<and> z_optional (companyEntitySchema L) (get ''company'' e))"

lemma size_lookup: "lookup kvs k = JArr xs ps \<Longrightarrow> x \<in> set xs \<Longrightarrow> size x < size (JObj kvs)"
proof (induction kvs)
  case Nil
  then show ?case by simp
next
  case (Cons kv kvs)
  obtain k' v where kv: "kv = (k', v)" by (cases kv)
  show ?case
  proof (cases "k = k'")
    case True
    with Cons.prems kv have "v = JArr xs ps" by simp
    moreover have "size x \<le> size_list size xs" using Cons.prems(2) by (simp add: size_list_estimation')
    ultimately show ?thesis using kv by simp
  next
    case False
    with Cons kv have "size x < size (JObj kvs)" by simp
    then show ?thesis by simp
  qed
qed

text \<open>
  \<^verbatim>\<open>recursiveProductEntitySchema\<close> (interfaces.ts, line 129): the product schema
  extended by \<^verbatim>\<open>competitors\<close>, an optional array of the same schema.
\<close>

function recursiveProductEntitySchema :: "zod_formats \<Rightarrow> json \<Rightarrow> bool" where
  "recursiveProductEntitySchema L (JObj kvs) =
     (productEntitySchema L (JObj kvs)
      \<and> (case lookup kvs ''competitors'' of
            JUndef \<Rightarrow> True
          | JArr cs ps \<Rightarrow> list_all (recursiveProductEntitySchema L) cs
          | _ \<Rightarrow> False))"
| "recursiveProductEntitySchema L JUndef = False"
| "recursiveProductEntitySchema L JNull = False"
| "recursiveProductEntitySchema L (JBool b) = False"
| "recursiveProductEntitySchema L (JNum n) = False"
| "recursiveProductEntitySchema L (JStr s) = False"
| "recursiveProductEntitySchema L (JArr xs ps) = False"
  by pat_completeness auto
termination
  by (relation "measure (\<lambda>(L, v). size v)") (auto dest: size_lookup)

text \<open>\<^verbatim>\<open>validate.analysisData\<close> (lines 276 to 310): the schema and the verdict.\<close>

definition analysisDataSchema :: "zod_formats \<Rightarrow> json \<Rightarrow> bool" where
  "analysisDataSchema L data =
     (z_object data
      \<and> (let entity = get ''entity'' data in
           z_object entity
           \<and> z_nullable z_string (get ''id'' entity)
           \<and> z_string (get ''name_brand'' entity)
           \<and> z_optional (z_array (entityDetailSchema L)) (get ''details'' entity)
           \<and> z_optional (z_array (recursiveProductEntitySchema L)) (get ''products'' entity))
      \<and> z_optional (\<lambda>m.
           z_object m
           \<and> z_optional (\<lambda>c.
                z_object c \<and> z_number (get ''totalTokens'' c) \<and> z_number (get ''costUSD'' c))
                (get ''cost'' m)
           \<and> z_optional z_string (get ''validation'' m))
           (get ''_meta'' data))"

text \<open>
  The string formats in the shapes that Zod 3 tests: \<^verbatim>\<open>.uuid()\<close> wants the 8-4-4-4-12
  grouping of hexadecimal digits, \<^verbatim>\<open>.datetime()\<close> a date and a time joined by \<^verbatim>\<open>T\<close>,
  with optional fraction and the suffix \<^verbatim>\<open>Z\<close> (the ranges of month, day and hour are
  not written out); \<^verbatim>\<open>.url()\<close> hands the string to the URL parser of the platform, of
  which only the requirement of a scheme is written out.  The general statements below
  hold for every \<open>L\<close>; \<open>zod3\<close> serves where a value is validated at a concrete input, and
  there the schemas consult neither the format of a UUID nor the one of a URL.
\<close>

definition is_digit :: "char \<Rightarrow> bool" where
  "is_digit c = (c \<in> set ''0123456789'')"

definition is_hex :: "char \<Rightarrow> bool" where
  "is_hex c = (c \<in> set ''0123456789abcdefABCDEF'')"

definition is_scheme_char :: "char \<Rightarrow> bool" where
  "is_scheme_char c =
     (c \<in> set ''abcdefghijklmnopqrstuvwxyzABCDEFGHIJKLMNOPQRSTUVWXYZ0123456789+-.'')"

text \<open>In a pattern \<^verbatim>\<open>d\<close> stands for a digit, \<^verbatim>\<open>h\<close> for a hexadecimal digit.\<close>

fun matches :: "string \<Rightarrow> string \<Rightarrow> bool" where
  "matches [] [] = True"
| "matches (p # ps) (c # cs) =
     ((if p = CHR ''d'' then is_digit c else if p = CHR ''h'' then is_hex c else c = p)
      \<and> matches ps cs)"
| "matches _ _ = False"

definition zod3 :: zod_formats where
  "zod3 =
     \<lparr> uuid = matches ''hhhhhhhh-hhhh-hhhh-hhhh-hhhhhhhhhhhh'',
       datetime = (\<lambda>s. matches ''dddd-dd-ddTdd:dd:dd'' (take 19 s)
                        \<and> (drop 19 s = ''Z''
                           \<or> (case drop 19 s of
                                 c # r \<Rightarrow> c = CHR ''.'' \<and> 2 \<le> length r \<and> last r = CHR ''Z''
                                           \<and> list_all is_digit (butlast r)
                               | [] \<Rightarrow> False))),
       url = (\<lambda>s. case dropWhile is_scheme_char s of
                     c # r \<Rightarrow> c = CHR '':'' \<and> takeWhile is_scheme_char s \<noteq> []
                               \<and> \<not> is_digit (hd s) \<and> hd s \<notin> set ''+-.''
                   | [] \<Rightarrow> False) \<rparr>"

section \<open>Generation strategies and processing levels (data-tools/openai.ts)\<close>

text \<open>
  What the request meets outside the program is gathered in one record: the outcome of
  the one call of \<^verbatim>\<open>callOpenAIWithSchema\<close> that either strategy makes (an exception, or
  the parsed data with the cost of the call), the date of the day, the string formats of
  the schema library and the texts in which it reports the issues of a rejected value.
\<close>

record cost =
  totalTokens :: rat
  costUSD :: rat

record env =
  reply :: "exn + json \<times> cost"
  today :: string
  formats :: zod_formats
  issues :: "json \<Rightarrow> string list"

record options =
  sourceType :: string
  strategy :: string
  skipValidation :: bool

record basic_info =
  company_name :: json
  main_products :: "json list"
  main_competitors :: "json list"
  info_cost :: cost

definition cost_json :: "cost \<Rightarrow> json" where
  "cost_json c = JObj [(''totalTokens'', JNum (totalTokens c)), (''costUSD'', JNum (costUSD c))]"

text \<open>
  An assignment \<^verbatim>\<open>v.k = w\<close>.  The modules are ECMAScript modules, hence strict code:
  the assignment to a property of a primitive value throws, as it does on \<^verbatim>\<open>null\<close> and
  \<^verbatim>\<open>undefined\<close>.
\<close>

fun set_prop :: "string \<Rightarrow> json \<Rightarrow> json \<Rightarrow> exn + json" where
  "set_prop k w (JObj kvs) = Inr (JObj (obj_set k w kvs))"
| "set_prop k w (JArr xs ps) = Inr (JArr xs (obj_set k w ps))"
| "set_prop k w _ = Inl TypeError"

text \<open>
  \<^verbatim>\<open>processSingleStepAnalysis\<close>: the call, then the cost written into \<^verbatim>\<open>_meta\<close>; the
  \<^verbatim>\<open>catch\<close> logs and throws the exception again.
\<close>

definition processSingleStepAnalysis :: "env \<Rightarrow> exn + json" where
  "processSingleStepAnalysis E =
     (case reply E of
        Inl e \<Rightarrow> Inl e
      | Inr (parsedData, c) \<Rightarrow>
          if nullish parsedData then Inl TypeError
          else bindE (if \<not> truthy (get ''_meta'' parsedData)
                      then set_prop ''_meta'' (JObj []) parsedData
                      else Inr parsedData) (\<lambda>parsedData'.
               bindE (set_prop ''cost'' (cost_json c) (get ''_meta'' parsedData')) (\<lambda>meta.
               set_prop ''_meta'' meta parsedData')))"

text \<open>
  \<^verbatim>\<open>getBasicCompanyInfo\<close>: its \<^verbatim>\<open>catch\<close> answers every exception with default values
  (``Provide default values on error to allow analysis to continue'').
\<close>

definition getBasicCompanyInfo :: "string \<Rightarrow> env \<Rightarrow> basic_info" where
  "getBasicCompanyInfo companyName E =
     (case reply E of
        Inl e \<Rightarrow>
          \<lparr> company_name = JStr companyName, main_products = [], main_competitors = [],
            info_cost = \<lparr> totalTokens = 0, costUSD = 0 \<rparr> \<rparr>
      | Inr (data, c) \<Rightarrow>
          if nullish data then
            \<lparr> company_name = JStr companyName, main_products = [], main_competitors = [],
              info_cost = \<lparr> totalTokens = 0, costUSD = 0 \<rparr> \<rparr>
          else
            \<lparr> company_name = js_or (get ''company_name'' data) (JStr companyName),
              main_products =
                (if isArray (get ''main_products'' data) then elems (get ''main_products'' data)
                 else []),
              main_competitors =
                (if isArray (get ''main_competitors'' data)
                 then elems (get ''main_competitors'' data) else []),
              info_cost = c \<rparr>)"

text \<open>
  \<^verbatim>\<open>processMultiStepAnalysis\<close>: one product skeleton is pushed for every name of
  \<^verbatim>\<open>main_products\<close>, in their order.
\<close>

definition competitor_skeleton :: "json \<Rightarrow> json" where
  "competitor_skeleton competitor =
     JObj [(''id'', JNull), (''name_brand'', competitor), (''details'', JArr [] [])]"

definition product_skeleton :: "string \<Rightarrow> string \<Rightarrow> json list \<Rightarrow> json \<Rightarrow> json" where
  "product_skeleton companyName day competitors productName =
     JObj [(''id'', JNull), (''name_brand'', productName),
           (''details'',
              JArr [JObj [(''type_research_detail'', JStr ''market_share_estimate''),
                          (''data_confidence'', JStr ''high''),
                          (''source_type'', JStr ''analyst_estimate''),
                          (''as_of_date'', JStr day),
                          (''text_value'', JStr (''Product offered by '' @ companyName))]] []),
           (''competitors'', JArr (map competitor_skeleton competitors) [])]"

definition processMultiStepAnalysis :: "string \<Rightarrow> env \<Rightarrow> exn + json" where
  "processMultiStepAnalysis companyName E =
     (let basicInfo = getBasicCompanyInfo companyName E in
      Inr (JObj
        [(''entity'',
            JObj [(''id'', JNull), (''name_brand'', company_name basicInfo),
                  (''products'',
                     JArr (map (product_skeleton companyName (today E) (main_competitors basicInfo))
                             (main_products basicInfo)) []),
                  (''details'', JArr [] [])]),
         (''_meta'', JObj [(''cost'', cost_json (info_cost basicInfo))])]))"

text \<open>
  \<^verbatim>\<open>validate.analysisData(data).isValid\<close>, and its list of errors as an array of
  strings.
\<close>

definition isValid :: "env \<Rightarrow> json \<Rightarrow> bool" where
  "isValid E data = analysisDataSchema (formats E) data"

definition validation_errors :: "env \<Rightarrow> json \<Rightarrow> json" where
  "validation_errors E data = JArr (map JStr (issues E data)) []"

text \<open>
  \<^verbatim>\<open>finalizeAnalysisData\<close>: unless validation is skipped the repair runs without a look
  at the validator.
\<close>

definition finalizeAnalysisData :: "env \<Rightarrow> options \<Rightarrow> json \<Rightarrow> exn + json" where
  "finalizeAnalysisData E opts analysisData =
     (if \<not> skipValidation opts then
        (let repairedData = repairAnalysisData (today E) analysisData in
         if truthy (get ''_meta'' repairedData)
         then bindE (set_prop ''validation'' (JStr ''repaired'') (get ''_meta'' repairedData))
                (\<lambda>meta. set_prop ''_meta'' meta repairedData)
         else Inr repairedData)
      else Inr analysisData)"

text \<open>
  The \<^verbatim>\<open>switch\<close> of \<^verbatim>\<open>processCompanyAnalysis\<close> on the processing level.  The reads of
  \<^verbatim>\<open>analysisData._meta\<close> throw on a nullish value.
\<close>

definition validatedOpenAI :: "env \<Rightarrow> json \<Rightarrow> exn + json" where
  "validatedOpenAI E analysisData =
     (if nullish analysisData then Inl TypeError
      else Inr (JObj (obj_set ''_meta''
        (JObj (obj_set ''validationErrors''
                 (if isValid E analysisData then JArr [] [] else validation_errors E analysisData)
              (obj_set ''validation''
                 (JStr (if isValid E analysisData then ''passed'' else ''failed''))
              (own_props (get ''_meta'' analysisData)))))
        (own_props analysisData))))"

definition repairedOpenAI :: "env \<Rightarrow> json \<Rightarrow> exn + json" where
  "repairedOpenAI E analysisData =
     (if nullish analysisData then Inl TypeError
      else
        (let metadata =
               JObj (obj_set ''validation''
                 (JStr (if isValid E analysisData then ''valid_at_source'' else ''repaired''))
                 (own_props (get ''_meta'' analysisData)))
         in if isValid E analysisData
            then Inr (JObj (obj_set ''_meta'' metadata (own_props analysisData)))
            else Inr (JObj (obj_set ''_meta'' metadata
                             (own_props (repairAnalysisData (today E) analysisData))))))"

text \<open>
  \<^verbatim>\<open>processCompanyAnalysis\<close>: the raw result of the chosen strategy (lines 119 to 125),
  then the branch of the level; an absent option takes its default, and the \<^verbatim>\<open>catch\<close>
  throws every exception again.
\<close>

definition generate :: "string \<Rightarrow> options \<Rightarrow> env \<Rightarrow> exn + json" where
  "generate companyName opts E =
     (if (if strategy opts = [] then ''single'' else strategy opts) = ''multi''
      then processMultiStepAnalysis companyName E
      else processSingleStepAnalysis E)"

definition processCompanyAnalysis :: "string \<Rightarrow> options \<Rightarrow> env \<Rightarrow> exn + json" where
  "processCompanyAnalysis companyName opts E =
     (let level = (if sourceType opts = [] then ''transformedOpenAI'' else sourceType opts)
      in bindE (generate companyName opts E) (\<lambda>analysisData.
           if level = ''rawOpenAI'' then Inr analysisData
           else if level = ''validatedOpenAI'' then validatedOpenAI E analysisData
           else if level = ''repairedOpenAI'' then repairedOpenAI E analysisData
           else finalizeAnalysisData E opts analysisData))"

text \<open>
  A request of the second of November 2026, against the formats of Zod 3, whose one call
  has the outcome \<open>r\<close>.
\<close>

definition env_on :: "exn + json \<times> cost \<Rightarrow> env" where
  "env_on r =
     \<lparr> reply = r, today = ''2026-11-02'', formats = zod3,
       issues = (\<lambda>data. [''entity: Required'']) \<rparr>"

text \<open>The identifiers of the root, of the products and of their competitors are null.\<close>

definition ids_null :: "json \<Rightarrow> bool" where
  "ids_null r =
     (get ''id'' (get ''entity'' r) = JNull
      \<and> list_all (\<lambda>p. get ''id'' p = JNull
                       \<and> list_all (\<lambda>c. get ''id'' c = JNull) (elems (get ''competitors'' p)))
           (elems (get ''products'' (get ''entity'' r))))"



section \<open>Flattening the competitors (data-tools/validation/interfaces.ts, extractCompetitors)\<close>



record competitor =
  name :: string
  marketShare :: rat
  primaryCompetition :: string













section \<open>Predicates of the statements\<close>

text \<open>
  The form of every value the repair returns for the input \<open>v\<close>: the four fields of the
  entity and the metadata, the name a string that is empty only where the input has the
  empty string for it.
\<close>

definition repaired_from :: "json \<Rightarrow> json \<Rightarrow> bool" where
  "repaired_from v r =
     (\<exists>s ds ps m.
        r = JObj [(''entity'', JObj [(''id'', JNull), (''name_brand'', JStr s),
                                     (''details'', JArr ds []), (''products'', JArr ps [])]),
                  (''_meta'', m)]
        \<and> (s = [] \<longrightarrow> get ''name_brand'' (get ''entity'' v) = JStr []
                       \<or> get ''nameBrand'' (get ''entity'' v) = JStr []))"

text \<open>
  The three fields of a detail that are typed by an enumeration hold a string of the list
  of their enumeration.
\<close>

fun listed :: "string list \<Rightarrow> json \<Rightarrow> bool" where
  "listed vs (JStr s) = (s \<in> set vs)"
| "listed vs _ = False"

definition enums_ok :: "json \<Rightarrow> bool" where
  "enums_ok d =
     (listed researchDetailTypes (get ''type_research_detail'' d)
      \<and> listed dataConfidence (get ''data_confidence'' d)
      \<and> listed sourceTypes (get ''source_type'' d))"

section \<open>Sample requests\<close>

definition acme_cost :: cost where
  "acme_cost = \<lparr> totalTokens = 120, costUSD = 3 / 1000 \<rparr>"

definition acme_basic_info :: json where
  "acme_basic_info =
     JObj [(''company_name'', JStr ''Acme''),
           (''main_products'', JArr [JStr ''Widget'', JStr ''Gadget''] []),
           (''main_competitors'', JArr [JStr ''Bolt'', JStr ''Nut''] [])]"

definition acme_product :: "string \<Rightarrow> json" where
  "acme_product n =
     JObj [(''id'', JNull), (''name_brand'', JStr n),
           (''details'',
              JArr [JObj [(''type_research_detail'', JStr ''market_share_estimate''),
                          (''data_confidence'', JStr ''high''),
                          (''source_type'', JStr ''analyst_estimate''),
                          (''as_of_date'', JStr ''2026-11-02''),
                          (''text_value'', JStr ''Product offered by Acme'')]] []),
           (''competitors'',
              JArr [JObj [(''id'', JNull), (''name_brand'', JStr ''Bolt''),
                          (''details'', JArr [] [])],
                    JObj [(''id'', JNull), (''name_brand'', JStr ''Nut''),
                          (''details'', JArr [] [])]] [])]"

definition acme_multi :: json where
  "acme_multi =
     JObj [(''entity'',
              JObj [(''id'', JNull), (''name_brand'', JStr ''Acme''),
                    (''products'', JArr [acme_product ''Widget'', acme_product ''Gadget''] []),
                    (''details'', JArr [] [])]),
           (''_meta'', JObj [(''cost'', JObj [(''totalTokens'', JNum 120),
                                              (''costUSD'', JNum (3 / 1000))])])]"

definition level :: "string \<Rightarrow> string \<Rightarrow> options" where
  "level l s = \<lparr> sourceType = l, strategy = s, skipValidation = False \<rparr>"

definition acme_single :: json where
  "acme_single =
     JObj [(''entity'',
        JObj [(''id'', JStr ''123e4567-e89b-12d3-a456-426614174000''),
              (''name_brand'', JStr ''Acme''),
              (''name_legal'', JStr ''Acme Corporation''),
              (''products'',
                 JArr [JObj [(''id'', JNull), (''name_brand'', JStr ''Widget''),
                             (''competitors'',
                                JArr [JObj [(''id'', JNull), (''name_brand'', JStr ''Bolt'')]]
                                  [])]] [])])]"

definition acme_legacy :: json where
  "acme_legacy =
     JObj [(''company_name'', JStr ''Acme''),
           (''products'', JArr [JObj [(''name'', JStr ''Widget'')]] [])]"

definition acme_repaired :: json where
  "acme_repaired =
     JObj [(''entity'',
        JObj [(''id'', JNull), (''name_brand'', JStr ''Acme''), (''details'', JArr [] []),
              (''products'',
                 JArr [JObj [(''id'', JNull), (''name_brand'', JStr ''Widget''),
                             (''details'', JArr [] []),
                             (''competitors'',
                                JArr [JObj [(''id'', JNull), (''name_brand'', JStr ''Bolt''),
                                            (''details'', JArr [] [])]] [])]] [])]),
           (''_meta'',
              JObj [(''cost'', JObj [(''totalTokens'', JNum 120), (''costUSD'', JNum (3 / 1000))]),
                    (''validation'', JStr ''repaired'')])]"

text \<open>A company with one detail; the type of the detail is the parameter.\<close>

definition acme_detailed :: "string \<Rightarrow> json" where
  "acme_detailed ty =
     JObj [(''entity'',
        JObj [(''id'', JNull), (''name_brand'', JStr ''Acme''),
              (''details'',
                 JArr [JObj [(''type_research_detail'', JStr ty),
                             (''data_confidence'', JStr ''high''),
                             (''source_type'', JStr ''analyst_estimate''),
                             (''discrete_value'', JNum 42)]] [])])]"

text \<open>What the single strategy makes of the reply \<open>acme_single\<close>: the cost is written in.\<close>

definition acme_generated :: json where
  "acme_generated =
     JObj (own_props acme_single @ [(''_meta'', JObj [(''cost'', cost_json acme_cost)])])"



text \<open>What the single strategy makes of the reply \<open>acme_legacy\<close>.\<close>

definition acme_legacy_generated :: json where
  "acme_legacy_generated =
     JObj (own_props acme_legacy @ [(''_meta'', JObj [(''cost'', cost_json acme_cost)])])"

section \<open>Properties of the flattening\<close>









section \<open>Properties of the generation strategies\<close>

text \<open>
  C9.  In the multi strategy every product skeleton carries the same array of competitors:
  one skeleton for every entry of the \<^verbatim>\<open>main_competitors\<close> of the basic information, in
  that order, with a null \<^verbatim>\<open>id\<close> and no details; the one synthetic detail
  (\<^verbatim>\<open>market_share_estimate\<close>) sits on the product skeleton.
\<close>

theorem multi_competitors_replicated:
  assumes "processMultiStepAnalysis companyName E = Inr r"
    and "p \<in> set (elems (get ''products'' (get ''entity'' r)))"
  shows "get ''competitors'' p =
           JArr (map (\<lambda>c. JObj [(''id'', JNull), (''name_brand'', c), (''details'', JArr [] [])])
                   (main_competitors (getBasicCompanyInfo companyName E))) []
         \<and> get ''details'' p =
             JArr [JObj [(''type_research_detail'', JStr ''market_share_estimate''),
                         (''data_confidence'', JStr ''high''),
                         (''source_type'', JStr ''analyst_estimate''),
                         (''as_of_date'', JStr (today E)),
                         (''text_value'', JStr (''Product offered by '' @ companyName))]] []"
  using assms
  by (auto simp: processMultiStepAnalysis_def Let_def product_skeleton_def competitor_skeleton_def)

theorem multi_competitors_replicated_witness:
  "processMultiStepAnalysis ''Acme'' (env_on (Inr (acme_basic_info, acme_cost))) = Inr acme_multi
   \<and> acme_product ''Gadget'' \<in> set (elems (get ''products'' (get ''entity'' acme_multi)))
   \<and> get ''competitors'' (acme_product ''Gadget'') =
       JArr [JObj [(''id'', JNull), (''name_brand'', JStr ''Bolt''), (''details'', JArr [] [])],
             JObj [(''id'', JNull), (''name_brand'', JStr ''Nut''), (''details'', JArr [] [])]] []"
proof -
  have run: "processMultiStepAnalysis ''Acme'' (env_on (Inr (acme_basic_info, acme_cost)))
               = Inr acme_multi"
    by (simp add: processMultiStepAnalysis_def Let_def product_skeleton_def
          competitor_skeleton_def getBasicCompanyInfo_def env_on_def js_or_def cost_json_def
          acme_basic_info_def acme_cost_def acme_multi_def acme_product_def)
  have mem: "acme_product ''Gadget'' \<in> set (elems (get ''products'' (get ''entity'' acme_multi)))"
    by (simp add: acme_multi_def)
  have info: "main_competitors (getBasicCompanyInfo ''Acme''
                (env_on (Inr (acme_basic_info, acme_cost)))) = [JStr ''Bolt'', JStr ''Nut'']"
    by (simp add: getBasicCompanyInfo_def env_on_def acme_basic_info_def)
  show ?thesis
    using run mem multi_competitors_replicated [OF run mem] unfolding info by simp
qed

text \<open>
  C3, as the code has it.  Under the single strategy an exception of the call is thrown
  on to the caller.  Under the multi strategy \<^verbatim>\<open>getBasicCompanyInfo\<close> catches the
  exception of its call and goes on with default values: the request returns, at every
  level, a result whose company carries the requested name and no products.
\<close>

theorem transport_errors:
  assumes "reply E = Inl e"
  shows "(strategy opts \<noteq> ''multi'' \<longrightarrow> processCompanyAnalysis n opts E = Inl e)
       \<and> (strategy opts = ''multi'' \<longrightarrow>
            (\<exists>r. processCompanyAnalysis n opts E = Inr r
                 \<and> get ''name_brand'' (get ''entity'' r) = JStr n
                 \<and> get ''products'' (get ''entity'' r) = JArr [] []))"
proof (intro conjI impI)
  assume "strategy opts \<noteq> ''multi''"
  then show "processCompanyAnalysis n opts E = Inl e"
    using assms
    by (simp add: processCompanyAnalysis_def generate_def processSingleStepAnalysis_def bindE_def)
next
  assume m: "strategy opts = ''multi''"
  have g: "generate n opts E = Inr (JObj
        [(''entity'',
            JObj [(''id'', JNull), (''name_brand'', JStr n),
                  (''products'', JArr [] []),
                  (''details'', JArr [] [])]),
         (''_meta'', JObj [(''cost'', JObj [(''totalTokens'', JNum 0), (''costUSD'', JNum 0)])])])"
    using assms m
    by (simp add: generate_def processMultiStepAnalysis_def getBasicCompanyInfo_def cost_json_def)
  show "\<exists>r. processCompanyAnalysis n opts E = Inr r
                 \<and> get ''name_brand'' (get ''entity'' r) = JStr n
                 \<and> get ''products'' (get ''entity'' r) = JArr [] []"
    unfolding processCompanyAnalysis_def g Let_def
    by (simp add: bindE_def validatedOpenAI_def repairedOpenAI_def finalizeAnalysisData_def
          repairAnalysisData_def repair_body_def repair_modern_def name_of_def Let_def)
qed

theorem transport_errors_witness:
  "reply (env_on (Inl (TransportError ''timeout''))) = Inl (TransportError ''timeout'')
   \<and> processCompanyAnalysis ''Acme'' (level ''repairedOpenAI'' ''single'')
       (env_on (Inl (TransportError ''timeout''))) = Inl (TransportError ''timeout'')
   \<and> (\<exists>r. processCompanyAnalysis ''Acme'' (level ''validatedOpenAI'' ''multi'')
             (env_on (Inl (TransportError ''timeout''))) = Inr r
          \<and> get ''name_brand'' (get ''entity'' r) = JStr ''Acme''
          \<and> get ''products'' (get ''entity'' r) = JArr [] [])"
proof -
  have r: "reply (env_on (Inl (TransportError ''timeout''))) = Inl (TransportError ''timeout'')"
    by (simp add: env_on_def)
  show ?thesis
    using r transport_errors [OF r, of "level ''repairedOpenAI'' ''single''" "''Acme''"]
      transport_errors [OF r, of "level ''validatedOpenAI'' ''multi''" "''Acme''"]
    by (simp add: level_def)
qed

text \<open>
  The claim C3 as it is written fails: a request of the multi strategy whose call times
  out returns the default company instead of failing.
\<close>

theorem transport_error_swallowed:
  "processCompanyAnalysis ''Acme'' (level '''' ''multi'')
     (env_on (Inl (TransportError ''timeout'')))
   = Inr (JObj [(''entity'',
                   JObj [(''id'', JNull), (''name_brand'', JStr ''Acme''),
                         (''details'', JArr [] []), (''products'', JArr [] [])]),
                (''_meta'',
                   JObj [(''cost'', JObj [(''totalTokens'', JNum 0), (''costUSD'', JNum 0)]),
                         (''validation'', JStr ''repaired'')])])"
  by (simp add: processCompanyAnalysis_def generate_def processMultiStepAnalysis_def
        getBasicCompanyInfo_def cost_json_def level_def env_on_def bindE_def
        finalizeAnalysisData_def repairAnalysisData_def repair_body_def repair_modern_def
        name_of_def Let_def)

section \<open>Properties of the repair engine\<close>

lemma typeof_string_JStr: "typeof_string v \<Longrightarrow> \<exists>s. v = JStr s"
  by (cases v) simp_all

lemma bindE_Inr: "bindE m f = Inr r \<Longrightarrow> \<exists>x. m = Inr x \<and> f x = Inr r"
  unfolding bindE_def by (cases m) simp_all

lemma name_of_str:
  "\<exists>s. name_of e d = JStr s
       \<and> (s = [] \<longrightarrow> d = [] \<or> get ''name_brand'' e = JStr [] \<or> get ''nameBrand'' e = JStr [])"
  unfolding name_of_def by (auto dest: typeof_string_JStr)

lemma js_or_truthy: "truthy b \<Longrightarrow> truthy (js_or a b)"
  by (simp add: js_or_def)

lemma legacy_company_name_str: "\<exists>s. legacy_company_name raw = JStr s \<and> s \<noteq> []"
proof -
  define n where "n = js_or (js_or (js_or (js_or
              (if typeof_object (get ''company'' raw) \<and> truthy (get ''company'' raw)
               then js_or (js_or (get ''name'' (get ''company'' raw)) (get ''company_name'' (get ''company'' raw)))
                          (get ''trade_name'' (get ''company'' raw))
               else JNull)
              (get ''company_name'' raw))
              (get ''name'' raw))
              (get ''trade_name'' raw))
              (JStr ''Unknown Company'')"
  have t: "truthy n" unfolding n_def by (rule js_or_truthy) simp
  have eq: "legacy_company_name raw = (if typeof_string n then n else JStr ''Unknown Company'')"
    unfolding legacy_company_name_def Let_def n_def by (rule refl)
  show ?thesis
  proof (cases "typeof_string n")
    case True
    then obtain s where "n = JStr s" using typeof_string_JStr by blast
    with t eq show ?thesis by simp
  next
    case False
    with eq show ?thesis by simp
  qed
qed

lemma repair_modern_shape:
  assumes "repair_modern t raw = Inr r"
  shows "repaired_from raw r"
proof -
  obtain s where s: "name_of (get ''entity'' raw) ''Unknown Company'' = JStr s"
    and e: "s = [] \<longrightarrow> get ''name_brand'' (get ''entity'' raw) = JStr []
                        \<or> get ''nameBrand'' (get ''entity'' raw) = JStr []"
    using name_of_str [of "get ''entity'' raw" "''Unknown Company''"] by auto
  from assms obtain ds ps m where
    "r = JObj [(''entity'', JObj [(''id'', JNull), (''name_brand'', JStr s), (''details'', JArr ds []), (''products'', JArr ps [])]), (''_meta'', m)]"
    unfolding repair_modern_def Let_def s
    by (auto dest!: bindE_Inr split: if_splits)
  with e show ?thesis unfolding repaired_from_def by blast
qed

lemma repair_legacy_shape: "repaired_from v (repair_legacy v)"
  using legacy_company_name_str [of v] unfolding repair_legacy_def repaired_from_def by auto

lemma defaultData_shape: "repaired_from v defaultData"
  unfolding defaultData_def repaired_from_def by simp

lemma repair_shape: "repaired_from v (repairAnalysisData t v)"
proof (cases "repair_body t v")
  case (Inl e)
  then show ?thesis unfolding repairAnalysisData_def using defaultData_shape by simp
next
  case (Inr r)
  have "repaired_from v r"
    using Inr repair_modern_shape [of t v r] repair_legacy_shape [of v] defaultData_shape [of v]
    unfolding repair_body_def by (auto split: if_splits)
  then show ?thesis unfolding repairAnalysisData_def using defaultData_shape Inr by auto
qed

text \<open>
  C1, as the code has it.  For every input the repair returns (it has no way to throw) an
  object whose \<^verbatim>\<open>entity.name_brand\<close> is a string and whose \<^verbatim>\<open>entity.products\<close> is an
  array.  The string is tested with \<^verbatim>\<open>typeof\<close> only: it is empty only where the
  input gives the empty string as the name (\<^verbatim>\<open>name_brand\<close>, or \<^verbatim>\<open>nameBrand\<close>) of its
  entity.
\<close>

theorem repair_total:
  "\<exists>s ps. get ''name_brand'' (get ''entity'' (repairAnalysisData t v)) = JStr s
        \<and> get ''products'' (get ''entity'' (repairAnalysisData t v)) = JArr ps []
        \<and> (s = [] \<longrightarrow> get ''name_brand'' (get ''entity'' v) = JStr []
                       \<or> get ''nameBrand'' (get ''entity'' v) = JStr [])"
  using repair_shape [of v t] unfolding repaired_from_def by auto

theorem repair_total_witness:
  "get ''name_brand'' (get ''entity'' (repairAnalysisData ''2026-11-02''
      (JObj [(''company_name'', JStr ''Acme''),
             (''products'', JArr [JObj [(''name'', JStr ''Widget'')]] [])]))) = JStr ''Acme''
   \<and> get ''products'' (get ''entity'' (repairAnalysisData ''2026-11-02''
      (JObj [(''company_name'', JStr ''Acme''),
             (''products'', JArr [JObj [(''name'', JStr ''Widget'')]] [])])))
     = JArr [JObj [(''id'', JNull), (''name_brand'', JStr ''Widget''), (''details'', JArr [] []),
                   (''competitors'', JArr [] [])]] []"
  using repair_total [of "''2026-11-02''"
      "JObj [(''company_name'', JStr ''Acme''),
             (''products'', JArr [JObj [(''name'', JStr ''Widget'')]] [])]"]
  by (simp add: repairAnalysisData_def repair_body_def repair_legacy_def
        legacy_company_name_def legacy_product_def legacy_name_def js_or_def Let_def)

text \<open>
  The claim C1 as it is written fails: the empty string is a string, and the repair
  keeps it as the name.
\<close>

theorem repair_keeps_empty_name:
  "get ''name_brand'' (get ''entity'' (repairAnalysisData ''2026-11-02''
      (JObj [(''entity'', JObj [(''name_brand'', JStr '''')])]))) = JStr ''''"
  by (simp add: repairAnalysisData_def repair_body_def repair_modern_def name_of_def bindE_def)

lemma mapE_all:
  "mapE f xs = Inr ys \<Longrightarrow> (\<And>x y. f x = Inr y \<Longrightarrow> P y) \<Longrightarrow> list_all P ys"
proof (induction xs arbitrary: ys)
  case Nil
  then show ?case by simp
next
  case (Cons x xs)
  from Cons.prems(1) obtain y ys' where "f x = Inr y" "mapE f xs = Inr ys'" "ys = y # ys'"
    by (auto dest!: bindE_Inr)
  with Cons show ?case by simp
qed

lemma map_index_all: "(\<And>x i. P (f x i)) \<Longrightarrow> list_all P (map_index i f xs)"
  by (induction xs arbitrary: i) simp_all

lemma repair_competitor_id: "repair_competitor t c = Inr y \<Longrightarrow> get ''id'' y = JNull"
  unfolding repair_competitor_def placeholder_def
  by (auto dest!: bindE_Inr split: if_splits)

lemma repair_product_ids:
  assumes "repair_product t p = Inr y"
  shows "get ''id'' y = JNull
         \<and> list_all (\<lambda>c. get ''id'' c = JNull) (elems (get ''competitors'' y))"
proof (cases "\<not> truthy p \<or> \<not> typeof_object p")
  case True
  with assms show ?thesis by (auto simp: repair_product_def placeholder_def)
next
  case False
  with assms obtain ds cs where
    y: "y = JObj [(''id'', JNull), (''name_brand'', name_of p ''Unknown Product''),
                  (''details'', ds), (''competitors'', cs)]"
    and cs: "(if isArray (get ''competitors'' p)
               then bindE (mapE (repair_competitor t) (elems (get ''competitors'' p)))
                      (\<lambda>cs. Inr (JArr cs []))
               else Inr (JArr [] [])) = Inr cs"
    unfolding repair_product_def by (auto dest!: bindE_Inr)
  have "list_all (\<lambda>c. get ''id'' c = JNull) (elems cs)"
  proof (cases "isArray (get ''competitors'' p)")
    case True
    with cs obtain xs where "mapE (repair_competitor t) (elems (get ''competitors'' p)) = Inr xs"
      and "cs = JArr xs []" by (auto dest!: bindE_Inr)
    then show ?thesis using mapE_all [of "repair_competitor t" _ xs "\<lambda>c. get ''id'' c = JNull"]
      by (auto dest: repair_competitor_id)
  next
    case False
    with cs show ?thesis by auto
  qed
  with y show ?thesis by simp
qed

lemma legacy_product_ids:
  "get ''id'' (legacy_product p i) = JNull
   \<and> list_all (\<lambda>c. get ''id'' c = JNull) (elems (get ''competitors'' (legacy_product p i)))"
proof -
  have "\<And>c j. get ''id'' (legacy_competitor c j) = JNull"
    by (simp add: legacy_competitor_def placeholder_def)
  then have "list_all (\<lambda>c. get ''id'' c = JNull) (map_index 0 legacy_competitor xs)" for xs
    by (rule map_index_all)
  then show ?thesis by (simp add: legacy_product_def placeholder_def)
qed

lemma repair_modern_ids: "repair_modern t v = Inr r \<Longrightarrow> ids_null r"
proof -
  assume a: "repair_modern t v = Inr r"
  then obtain ds ps m where
    r: "r = JObj [(''entity'', JObj [(''id'', JNull),
                     (''name_brand'', name_of (get ''entity'' v) ''Unknown Company''),
                     (''details'', ds), (''products'', ps)]), (''_meta'', m)]"
    and ps: "(if isArray (get ''products'' (get ''entity'' v))
             then bindE (mapE (repair_product t) (elems (get ''products'' (get ''entity'' v))))
                    (\<lambda>ps. Inr (JArr ps []))
             else Inr (JArr [] [])) = Inr ps"
    unfolding repair_modern_def Let_def by (auto dest!: bindE_Inr)
  have "list_all (\<lambda>p. get ''id'' p = JNull
           \<and> list_all (\<lambda>c. get ''id'' c = JNull) (elems (get ''competitors'' p))) (elems ps)"
  proof (cases "isArray (get ''products'' (get ''entity'' v))")
    case True
    with ps obtain xs where "mapE (repair_product t) (elems (get ''products'' (get ''entity'' v))) = Inr xs"
      and "ps = JArr xs []" by (auto dest!: bindE_Inr)
    then show ?thesis
      using mapE_all [of "repair_product t" _ xs "\<lambda>p. get ''id'' p = JNull
           \<and> list_all (\<lambda>c. get ''id'' c = JNull) (elems (get ''competitors'' p))"]
      by (auto dest: repair_product_ids)
  next
    case False
    with ps show ?thesis by auto
  qed
  with r show ?thesis by (simp add: ids_null_def)
qed

lemma repair_legacy_ids: "ids_null (repair_legacy v)"
proof -
  have "list_all (\<lambda>p. get ''id'' p = JNull
           \<and> list_all (\<lambda>c. get ''id'' c = JNull) (elems (get ''competitors'' p)))
          (map_index 0 legacy_product xs)" for xs
    by (rule map_index_all) (rule legacy_product_ids)
  then show ?thesis by (simp add: repair_legacy_def ids_null_def)
qed

lemma repair_ids_null: "ids_null (repairAnalysisData t v)"
proof -
  have d: "ids_null defaultData" by (simp add: defaultData_def ids_null_def)
  show ?thesis
  proof (cases "repair_body t v")
    case (Inl e)
    then show ?thesis unfolding repairAnalysisData_def using d by simp
  next
    case (Inr r)
    have "ids_null r"
      using Inr repair_modern_ids [of t v r] repair_legacy_ids [of v] d
      unfolding repair_body_def by (auto split: if_splits)
    then show ?thesis unfolding repairAnalysisData_def using d Inr by auto
  qed
qed

lemma lookup_obj_set: "lookup (obj_set k v kvs) k' = (if k' = k then v else lookup kvs k')"
  by (induction kvs) auto

lemma ids_null_set_meta:
  "ids_null (JObj kvs) \<Longrightarrow> ids_null (JObj (obj_set ''_meta'' m kvs))"
  by (simp add: ids_null_def lookup_obj_set)

lemma multi_ids_null: "processMultiStepAnalysis n E = Inr a \<Longrightarrow> \<exists>kvs. a = JObj kvs \<and> ids_null a"
  by (auto simp: processMultiStepAnalysis_def Let_def ids_null_def list_all_iff
        product_skeleton_def competitor_skeleton_def)

lemma finalize_ids_null:
  assumes "finalizeAnalysisData E opts a = Inr r" and "\<not> skipValidation opts \<or> ids_null a"
  shows "ids_null r"
proof (cases "skipValidation opts")
  case True
  with assms show ?thesis by (simp add: finalizeAnalysisData_def)
next
  case False
  obtain kvs where k: "repairAnalysisData (today E) a = JObj kvs"
    using repair_shape [of a "today E"] unfolding repaired_from_def by blast
  have i: "ids_null (JObj kvs)" using repair_ids_null [of "today E" a] k by simp
  show ?thesis
  proof (cases "truthy (lookup kvs ''_meta'')")
    case True
    with assms(1) False k obtain m where "r = JObj (obj_set ''_meta'' m kvs)"
      by (auto simp: finalizeAnalysisData_def Let_def dest!: bindE_Inr)
    with i show ?thesis by (simp add: ids_null_set_meta)
  next
    case f: False
    with assms(1) False k have "r = JObj kvs" by (simp add: finalizeAnalysisData_def Let_def)
    with i show ?thesis by simp
  qed
qed

text \<open>
  C8, as the code has it.  The identifiers are null wherever the pipeline built the tree
  of entities itself: in every result of the multi strategy, in the result of the default
  level (any level other than the three named ones) unless validation is skipped, and at
  the level \<^verbatim>\<open>repairedOpenAI\<close> when the validator rejected the generated result.
\<close>

theorem ids_null_after_repair:
  assumes "processCompanyAnalysis n opts E = Inr r"
    and "strategy opts = ''multi''
         \<or> (sourceType opts \<notin> {''rawOpenAI'', ''validatedOpenAI'', ''repairedOpenAI''}
            \<and> \<not> skipValidation opts)
         \<or> (sourceType opts = ''repairedOpenAI''
            \<and> (\<exists>a. generate n opts E = Inr a \<and> \<not> isValid E a))"
  shows "ids_null r"
proof -
  from assms(1) obtain a where g: "generate n opts E = Inr a"
    and lv: "(if sourceType opts = ''rawOpenAI'' then Inr a
             else if sourceType opts = ''validatedOpenAI'' then validatedOpenAI E a
             else if sourceType opts = ''repairedOpenAI'' then repairedOpenAI E a
             else finalizeAnalysisData E opts a) = Inr r"
    unfolding processCompanyAnalysis_def Let_def
    by (auto dest!: bindE_Inr split: if_splits simp: finalizeAnalysisData_def)
  obtain kvs where k: "repairAnalysisData (today E) a = JObj kvs"
    using repair_shape [of a "today E"] unfolding repaired_from_def by blast
  have rk: "ids_null (JObj kvs)" using repair_ids_null [of "today E" a] k by simp
  show ?thesis
  proof (cases "strategy opts = ''multi''")
    case True
    with g obtain akvs where a: "a = JObj akvs" and ia: "ids_null a"
      using multi_ids_null [of n E a] by (auto simp: generate_def)
    consider (raw) "sourceType opts = ''rawOpenAI''"
      | (val) "sourceType opts = ''validatedOpenAI''"
      | (rep) "sourceType opts = ''repairedOpenAI''"
      | (fin) "sourceType opts \<notin> {''rawOpenAI'', ''validatedOpenAI'', ''repairedOpenAI''}"
      by auto
    then show ?thesis
    proof cases
      case raw
      with lv ia show ?thesis by simp
    next
      case val
      with lv a ia show ?thesis
        by (auto simp: validatedOpenAI_def intro: ids_null_set_meta)
    next
      case rep
      with lv a ia rk k show ?thesis
        by (auto simp: repairedOpenAI_def Let_def intro: ids_null_set_meta split: if_splits)
    next
      case fin
      with lv have "finalizeAnalysisData E opts a = Inr r" by auto
      then show ?thesis using ia finalize_ids_null [of E opts a r] by simp
    qed
  next
    case False
    with assms(2) consider
        (fin) "sourceType opts \<notin> {''rawOpenAI'', ''validatedOpenAI'', ''repairedOpenAI''}"
              "\<not> skipValidation opts"
      | (rep) "sourceType opts = ''repairedOpenAI''" "\<not> isValid E a"
      using g by auto
    then show ?thesis
    proof cases
      case fin
      with lv have "finalizeAnalysisData E opts a = Inr r" by auto
      then show ?thesis using fin(2) finalize_ids_null [of E opts a r] by simp
    next
      case rep
      with lv rk k show ?thesis
        by (auto simp: repairedOpenAI_def Let_def intro: ids_null_set_meta split: if_splits)
    qed
  qed
qed

theorem ids_null_after_repair_witness:
  "processCompanyAnalysis ''Acme'' (level '''' ''single'') (env_on (Inr (acme_single, acme_cost)))
     = Inr acme_repaired
   \<and> ids_null acme_repaired"
proof -
  have run: "processCompanyAnalysis ''Acme'' (level '''' ''single'')
               (env_on (Inr (acme_single, acme_cost))) = Inr acme_repaired"
    by (simp add: processCompanyAnalysis_def generate_def processSingleStepAnalysis_def
          level_def env_on_def bindE_def acme_single_def acme_cost_def cost_json_def
          finalizeAnalysisData_def repairAnalysisData_def repair_body_def repair_modern_def
          repair_product_def repair_competitor_def details_of_def name_of_def Let_def
          acme_repaired_def)
  have lv: "strategy (level '''' ''single'') = ''multi''
         \<or> (sourceType (level '''' ''single'')
               \<notin> {''rawOpenAI'', ''validatedOpenAI'', ''repairedOpenAI''}
            \<and> \<not> skipValidation (level '''' ''single''))
         \<or> (sourceType (level '''' ''single'') = ''repairedOpenAI''
            \<and> (\<exists>a. generate ''Acme'' (level '''' ''single'')
                      (env_on (Inr (acme_single, acme_cost))) = Inr a
                     \<and> \<not> isValid (env_on (Inr (acme_single, acme_cost))) a))"
    by (simp add: level_def)
  show ?thesis using run ids_null_after_repair [OF run lv] by simp
qed

text \<open>
  The claim C8 as it is written fails: the level \<^verbatim>\<open>rawOpenAI\<close> returns the result of
  the single call as the LLM wrote it, identifiers included.
\<close>

theorem raw_level_keeps_ids:
  "map_sum id (\<lambda>r. get ''id'' (get ''entity'' r))
     (processCompanyAnalysis ''Acme'' (level ''rawOpenAI'' ''single'')
        (env_on (Inr (acme_single, acme_cost))))
   = Inr (JStr ''123e4567-e89b-12d3-a456-426614174000'')"
  by (simp add: processCompanyAnalysis_def generate_def processSingleStepAnalysis_def
        level_def env_on_def bindE_def acme_single_def acme_cost_def cost_json_def)

section \<open>Properties of the validator\<close>

lemma z_optional_array_elems:
  "z_optional (z_array P) v \<Longrightarrow> x \<in> set (elems v) \<Longrightarrow> P x"
  by (cases v) (auto simp: z_optional_def list_all_iff)

lemma z_enum_listed: "z_enum vs v \<Longrightarrow> listed vs v"
  by (cases v) simp_all

lemma detail_enums: "entityDetailSchema L d \<Longrightarrow> enums_ok d"
  unfolding entityDetailSchema_def enums_ok_def by (blast dest: z_enum_listed)

lemma recursive_product:
  "recursiveProductEntitySchema L p \<Longrightarrow>
     productEntitySchema L p
   \<and> list_all (recursiveProductEntitySchema L) (elems (get ''competitors'' p))"
  by (cases p) (auto split: json.splits)

lemma product_details:
  "recursiveProductEntitySchema L p \<Longrightarrow> d \<in> set (elems (get ''details'' p)) \<Longrightarrow>
     entityDetailSchema L d"
  using recursive_product [of L p]
  by (auto simp: productEntitySchema_def dest: z_optional_array_elems)

lemma valid_products:
  "analysisDataSchema L v \<Longrightarrow> p \<in> set (elems (get ''products'' (get ''entity'' v))) \<Longrightarrow>
     recursiveProductEntitySchema L p"
  by (auto simp: analysisDataSchema_def Let_def dest: z_optional_array_elems)

lemma valid_details:
  "analysisDataSchema L v \<Longrightarrow> d \<in> set (elems (get ''details'' (get ''entity'' v))) \<Longrightarrow>
     entityDetailSchema L d"
  by (auto simp: analysisDataSchema_def Let_def dest: z_optional_array_elems)

lemma acme_detailed_valid: "analysisDataSchema zod3 (acme_detailed ''market_share_estimate'')"
  by (simp add: analysisDataSchema_def acme_detailed_def entityDetailSchema_def z_optional_def
        z_nullable_def researchDetailTypes_def dataConfidence_def sourceTypes_def)

text \<open>
  C6, as the code has it.  \<^verbatim>\<open>validate.analysisData\<close> checks the details against
  \<^verbatim>\<open>entityDetailSchema\<close>, whose three enumerated fields are \<^verbatim>\<open>z.enum\<close> schemas: a value
  it accepts has, in every detail of the entity, of a product and of a competitor of a
  product, a listed string in each of the three fields.
\<close>

theorem validator_enforces_enums:
  assumes "analysisDataSchema L v"
  shows "(\<forall>d \<in> set (elems (get ''details'' (get ''entity'' v))). enums_ok d)
       \<and> (\<forall>p \<in> set (elems (get ''products'' (get ''entity'' v))).
             (\<forall>d \<in> set (elems (get ''details'' p)). enums_ok d)
           \<and> (\<forall>c \<in> set (elems (get ''competitors'' p)).
                 \<forall>d \<in> set (elems (get ''details'' c)). enums_ok d))"
proof (intro conjI ballI)
  fix d assume "d \<in> set (elems (get ''details'' (get ''entity'' v)))"
  with assms have "entityDetailSchema L d" by (rule valid_details)
  then show "enums_ok d" by (rule detail_enums)
next
  fix p d assume p: "p \<in> set (elems (get ''products'' (get ''entity'' v)))"
    and d: "d \<in> set (elems (get ''details'' p))"
  from assms p have "recursiveProductEntitySchema L p" by (rule valid_products)
  then have "entityDetailSchema L d" using d by (rule product_details)
  then show "enums_ok d" by (rule detail_enums)
next
  fix p c d assume p: "p \<in> set (elems (get ''products'' (get ''entity'' v)))"
    and c: "c \<in> set (elems (get ''competitors'' p))"
    and d: "d \<in> set (elems (get ''details'' c))"
  from assms p have "recursiveProductEntitySchema L p" by (rule valid_products)
  with c have "recursiveProductEntitySchema L c"
    using recursive_product [of L p] by (auto simp: list_all_iff)
  then have "entityDetailSchema L d" using d by (rule product_details)
  then show "enums_ok d" by (rule detail_enums)
qed

theorem validator_enforces_enums_witness:
  "analysisDataSchema zod3 (acme_detailed ''market_share_estimate'')
   \<and> enums_ok (JObj [(''type_research_detail'', JStr ''market_share_estimate''),
                      (''data_confidence'', JStr ''high''),
                      (''source_type'', JStr ''analyst_estimate''),
                      (''discrete_value'', JNum 42)])"
  using acme_detailed_valid validator_enforces_enums [OF acme_detailed_valid]
  by (simp add: acme_detailed_def)

text \<open>
  The claim C6 as it is written fails: of two values that differ in the type of one
  detail only, the validator accepts the one with the listed type and rejects the other.
\<close>

theorem validator_rejects_unknown_enum:
  "analysisDataSchema zod3 (acme_detailed ''market_share_estimate'')
   \<and> \<not> analysisDataSchema zod3 (acme_detailed ''revenue'')"
proof
  show "analysisDataSchema zod3 (acme_detailed ''market_share_estimate'')"
    by (rule acme_detailed_valid)
  show "\<not> analysisDataSchema zod3 (acme_detailed ''revenue'')"
    by (simp add: analysisDataSchema_def acme_detailed_def entityDetailSchema_def
          z_optional_def z_nullable_def researchDetailTypes_def dataConfidence_def
          sourceTypes_def)
qed

text \<open>
  C2 does not hold of the code.  The repair fills a missing \<^verbatim>\<open>as_of_date\<close> with the date
  of the day, where the schema wants a date with a time: the value below is accepted by
  the validator, and what the repair makes of it is rejected.
\<close>

theorem repair_output_rejected:
  "analysisDataSchema zod3 (acme_detailed ''market_share_estimate'')
   \<and> \<not> analysisDataSchema zod3
         (repairAnalysisData ''2026-11-02'' (acme_detailed ''market_share_estimate''))
   \<and> get ''as_of_date''
        (hd (elems (get ''details'' (get ''entity''
           (repairAnalysisData ''2026-11-02'' (acme_detailed ''market_share_estimate''))))))
       = JStr ''2026-11-02''"
proof -
  have r: "repairAnalysisData ''2026-11-02'' (acme_detailed ''market_share_estimate'') =
    JObj [(''entity'',
       JObj [(''id'', JNull), (''name_brand'', JStr ''Acme''),
             (''details'',
                JArr [JObj [(''type_research_detail'', JStr ''market_share_estimate''),
                            (''data_confidence'', JStr ''high''),
                            (''source_type'', JStr ''analyst_estimate''),
                            (''as_of_date'', JStr ''2026-11-02''),
                            (''discrete_value'', JNum 42), (''text_value'', JUndef)]] []),
             (''products'', JArr [] [])]),
          (''_meta'', JObj [(''cost'', JObj [(''totalTokens'', JNum 0), (''costUSD'', JNum 0)])])]"
    by (simp add: acme_detailed_def repairAnalysisData_def repair_body_def repair_modern_def
          entity_detail_def js_or_def discrete_of_def text_of_def name_of_def bindE_def
          defaultCost_def)
  have "\<not> analysisDataSchema zod3
         (repairAnalysisData ''2026-11-02'' (acme_detailed ''market_share_estimate''))"
    unfolding r
    by (simp add: analysisDataSchema_def entityDetailSchema_def z_optional_def z_nullable_def
          researchDetailTypes_def dataConfidence_def sourceTypes_def zod3_def)
  then show ?thesis using acme_detailed_valid unfolding r by simp
qed

theorem repair_output_rejected_witness:
  "\<not> isValid (env_on (Inr (acme_detailed ''market_share_estimate'', acme_cost)))
       (repairAnalysisData (today (env_on (Inr (acme_detailed ''market_share_estimate'', acme_cost))))
          (acme_detailed ''market_share_estimate''))"
  using repair_output_rejected by (simp add: isValid_def env_on_def)

section \<open>Properties of the processing levels\<close>

lemma set_prop_object: "set_prop k w v = Inr r \<Longrightarrow> \<not> nullish r"
  by (cases v) auto

lemma single_not_nullish: "processSingleStepAnalysis E = Inr a \<Longrightarrow> \<not> nullish a"
  unfolding processSingleStepAnalysis_def
  by (auto split: sum.splits prod.splits if_splits dest!: bindE_Inr dest: set_prop_object)

lemma generate_not_nullish: "generate n opts E = Inr a \<Longrightarrow> \<not> nullish a"
  unfolding generate_def
  by (auto split: if_splits dest: single_not_nullish simp: processMultiStepAnalysis_def Let_def)

lemma valid_object:
  "analysisDataSchema L a \<Longrightarrow>
     \<exists>kvs. a = JObj kvs \<and> (get ''_meta'' a = JUndef \<or> (\<exists>m. get ''_meta'' a = JObj m))"
proof -
  assume v: "analysisDataSchema L a"
  then obtain kvs where a: "a = JObj kvs" by (cases a) (auto simp: analysisDataSchema_def)
  from v have "get ''_meta'' a = JUndef \<or> z_object (get ''_meta'' a)"
    by (auto simp: analysisDataSchema_def z_optional_def)
  then have "get ''_meta'' a = JUndef \<or> (\<exists>m. get ''_meta'' a = JObj m)"
    by (cases "get ''_meta'' a") auto
  with a show ?thesis by blast
qed

text \<open>
  C7, as the code has it.  At the level \<^verbatim>\<open>repairedOpenAI\<close> the request returns.  If the
  validator accepts the generated result, every field other than \<^verbatim>\<open>_meta\<close> is the one of
  that result, and \<^verbatim>\<open>_meta\<close> is its \<^verbatim>\<open>_meta\<close> with \<^verbatim>\<open>validation\<close> set to
  \<^verbatim>\<open>valid_at_source\<close>.  If the validator rejects it, every field other than \<^verbatim>\<open>_meta\<close>
  is the one of the output of the repair, and \<^verbatim>\<open>_meta\<close> is made of the own properties of
  the \<^verbatim>\<open>_meta\<close> of the generated result (not of the output of the repair) with
  \<^verbatim>\<open>validation\<close> set to \<^verbatim>\<open>repaired\<close>.
\<close>

theorem repairedOpenAI_semantics:
  assumes "sourceType opts = ''repairedOpenAI''" and "generate n opts E = Inr a"
  shows "\<exists>r. processCompanyAnalysis n opts E = Inr r
    \<and> (isValid E a \<longrightarrow>
          (\<forall>k. k \<noteq> ''_meta'' \<longrightarrow> get k r = get k a)
        \<and> get ''validation'' (get ''_meta'' r) = JStr ''valid_at_source''
        \<and> (\<forall>k. k \<noteq> ''validation'' \<longrightarrow> get k (get ''_meta'' r) = get k (get ''_meta'' a)))
    \<and> (\<not> isValid E a \<longrightarrow>
          (\<forall>k. k \<noteq> ''_meta'' \<longrightarrow> get k r = get k (repairAnalysisData (today E) a))
        \<and> get ''_meta'' r =
            JObj (obj_set ''validation'' (JStr ''repaired'') (own_props (get ''_meta'' a))))"
proof -
  have nn: "\<not> nullish a" using assms(2) by (rule generate_not_nullish)
  have run: "processCompanyAnalysis n opts E = repairedOpenAI E a"
    using assms by (simp add: processCompanyAnalysis_def bindE_def)
  show ?thesis
  proof (cases "isValid E a")
    case True
    then obtain kvs where a: "a = JObj kvs"
      and m: "get ''_meta'' a = JUndef \<or> (\<exists>m. get ''_meta'' a = JObj m)"
      using valid_object [of "formats E" a] by (auto simp: isValid_def)
    from m have "\<forall>k. k \<noteq> ''validation'' \<longrightarrow>
       lookup (obj_set ''validation'' (JStr ''valid_at_source'') (own_props (get ''_meta'' a))) k
         = get k (get ''_meta'' a)"
      by (auto simp: lookup_obj_set)
    then show ?thesis unfolding run using True nn a
      by (simp add: repairedOpenAI_def Let_def lookup_obj_set)
  next
    case False
    obtain kvs where k: "repairAnalysisData (today E) a = JObj kvs"
      using repair_shape [of a "today E"] unfolding repaired_from_def by blast
    show ?thesis unfolding run using False nn k
      by (simp add: repairedOpenAI_def Let_def lookup_obj_set)
  qed
qed

lemma acme_generated_run:
  "generate ''Acme'' (level ''repairedOpenAI'' ''single'')
     (env_on (Inr (acme_single, acme_cost))) = Inr acme_generated"
  by (simp add: generate_def processSingleStepAnalysis_def level_def env_on_def bindE_def
        acme_single_def acme_generated_def)

lemma acme_generated_valid: "isValid (env_on (Inr (acme_single, acme_cost))) acme_generated"
  by (simp add: isValid_def env_on_def analysisDataSchema_def acme_generated_def
        acme_single_def cost_json_def z_optional_def z_nullable_def productEntitySchema_def
        baseEntitySchema_def)

lemma acme_legacy_run:
  "generate ''Acme'' (level ''repairedOpenAI'' ''single'')
     (env_on (Inr (acme_legacy, acme_cost))) = Inr acme_legacy_generated"
  by (simp add: generate_def processSingleStepAnalysis_def level_def env_on_def bindE_def
        acme_legacy_def acme_legacy_generated_def)

lemma acme_legacy_invalid:
  "\<not> isValid (env_on (Inr (acme_legacy, acme_cost))) acme_legacy_generated"
  by (simp add: isValid_def analysisDataSchema_def acme_legacy_generated_def acme_legacy_def)

lemma acme_legacy_repaired:
  "get ''cost'' (get ''_meta'' (repairAnalysisData ''2026-11-02'' acme_legacy_generated))
     = JObj [(''totalTokens'', JNum 0), (''costUSD'', JNum 0)]"
  by (simp add: repairAnalysisData_def repair_body_def repair_legacy_def defaultCost_def
        acme_legacy_generated_def acme_legacy_def)

theorem repairedOpenAI_semantics_witness:
  "sourceType (level ''repairedOpenAI'' ''single'') = ''repairedOpenAI''
   \<and> generate ''Acme'' (level ''repairedOpenAI'' ''single'')
        (env_on (Inr (acme_single, acme_cost))) = Inr acme_generated
   \<and> isValid (env_on (Inr (acme_single, acme_cost))) acme_generated
   \<and> (\<exists>r. processCompanyAnalysis ''Acme'' (level ''repairedOpenAI'' ''single'')
             (env_on (Inr (acme_single, acme_cost))) = Inr r
          \<and> get ''entity'' r = get ''entity'' acme_single
          \<and> get ''cost'' (get ''_meta'' r) = cost_json acme_cost
          \<and> get ''validation'' (get ''_meta'' r) = JStr ''valid_at_source'')
   \<and> generate ''Acme'' (level ''repairedOpenAI'' ''single'')
        (env_on (Inr (acme_legacy, acme_cost))) = Inr acme_legacy_generated
   \<and> \<not> isValid (env_on (Inr (acme_legacy, acme_cost))) acme_legacy_generated
   \<and> (\<exists>r. processCompanyAnalysis ''Acme'' (level ''repairedOpenAI'' ''single'')
             (env_on (Inr (acme_legacy, acme_cost))) = Inr r
          \<and> get ''entity'' r
              = get ''entity'' (repairAnalysisData ''2026-11-02'' acme_legacy_generated)
          \<and> get ''_meta'' r = JObj [(''cost'', cost_json acme_cost),
                                     (''validation'', JStr ''repaired'')])"
proof -
  have l: "sourceType (level ''repairedOpenAI'' ''single'') = ''repairedOpenAI''"
    by (simp add: level_def)
  have e: "get ''entity'' acme_generated = get ''entity'' acme_single"
    and c: "get ''cost'' (get ''_meta'' acme_generated) = cost_json acme_cost"
    by (simp_all add: acme_generated_def acme_single_def)
  have m: "obj_set ''validation'' (JStr ''repaired'') (own_props (get ''_meta'' acme_legacy_generated))
           = [(''cost'', cost_json acme_cost), (''validation'', JStr ''repaired'')]"
    by (simp add: acme_legacy_generated_def acme_legacy_def)
  have t: "today (env_on (Inr (acme_legacy, acme_cost))) = ''2026-11-02''"
    by (simp add: env_on_def)
  have valid: "\<exists>r. processCompanyAnalysis ''Acme'' (level ''repairedOpenAI'' ''single'')
             (env_on (Inr (acme_single, acme_cost))) = Inr r
          \<and> get ''entity'' r = get ''entity'' acme_single
          \<and> get ''cost'' (get ''_meta'' r) = cost_json acme_cost
          \<and> get ''validation'' (get ''_meta'' r) = JStr ''valid_at_source''"
    using acme_generated_valid e c repairedOpenAI_semantics [OF l acme_generated_run]
    by auto
  have invalid: "\<exists>r. processCompanyAnalysis ''Acme'' (level ''repairedOpenAI'' ''single'')
             (env_on (Inr (acme_legacy, acme_cost))) = Inr r
          \<and> get ''entity'' r
              = get ''entity'' (repairAnalysisData ''2026-11-02'' acme_legacy_generated)
          \<and> get ''_meta'' r = JObj [(''cost'', cost_json acme_cost),
                                     (''validation'', JStr ''repaired'')]"
    using acme_legacy_invalid repairedOpenAI_semantics [OF l acme_legacy_run]
    unfolding m t by auto
  show ?thesis
    using l acme_generated_run acme_generated_valid acme_legacy_run acme_legacy_invalid
      valid invalid by blast
qed

text \<open>
  The claim C7 as it is written fails in its second half: for a reply in the legacy shape
  the validator rejects the generated result, the repair answers with the default cost,
  and the request returns the cost of the call.
\<close>

theorem repaired_level_keeps_generated_meta:
  "map_sum id (isValid (env_on (Inr (acme_legacy, acme_cost))))
     (generate ''Acme'' (level ''repairedOpenAI'' ''single'')
        (env_on (Inr (acme_legacy, acme_cost)))) = Inr False
   \<and> map_sum id (\<lambda>r. get ''cost'' (get ''_meta'' r))
       (processCompanyAnalysis ''Acme'' (level ''repairedOpenAI'' ''single'')
          (env_on (Inr (acme_legacy, acme_cost))))
     = Inr (JObj [(''totalTokens'', JNum 120), (''costUSD'', JNum (3 / 1000))])
   \<and> map_sum id (\<lambda>a. get ''cost'' (get ''_meta'' (repairAnalysisData ''2026-11-02'' a)))
       (generate ''Acme'' (level ''repairedOpenAI'' ''single'')
          (env_on (Inr (acme_legacy, acme_cost))))
     = Inr (JObj [(''totalTokens'', JNum 0), (''costUSD'', JNum 0)])"
proof -
  have p: "processCompanyAnalysis ''Acme'' (level ''repairedOpenAI'' ''single'')
             (env_on (Inr (acme_legacy, acme_cost)))
           = repairedOpenAI (env_on (Inr (acme_legacy, acme_cost))) acme_legacy_generated"
    unfolding processCompanyAnalysis_def acme_legacy_run by (simp add: bindE_def level_def)
  obtain kvs where k: "repairAnalysisData (today (env_on (Inr (acme_legacy, acme_cost))))
                         acme_legacy_generated = JObj kvs"
    using repair_shape unfolding repaired_from_def by blast
  have n: "\<not> nullish acme_legacy_generated" by (simp add: acme_legacy_generated_def)
  have m: "lookup (own_props (get ''_meta'' acme_legacy_generated)) ''cost''
           = JObj [(''totalTokens'', JNum 120), (''costUSD'', JNum (3 / 1000))]"
    by (simp add: acme_legacy_generated_def acme_legacy_def cost_json_def acme_cost_def)
  have c: "map_sum id (\<lambda>r. get ''cost'' (get ''_meta'' r))
       (processCompanyAnalysis ''Acme'' (level ''repairedOpenAI'' ''single'')
          (env_on (Inr (acme_legacy, acme_cost))))
     = Inr (JObj [(''totalTokens'', JNum 120), (''costUSD'', JNum (3 / 1000))])"
    unfolding p using acme_legacy_invalid k n m
    by (simp add: repairedOpenAI_def Let_def lookup_obj_set)
  show ?thesis unfolding acme_legacy_run using acme_legacy_invalid acme_legacy_repaired c by simp
qed

section \<open>Properties of the extraction\<close>







section \<open>Repairing twice\<close>































end
